theory Spec2Isabelle
  imports Complex_Main "HOL-Library.Multiset"
begin

section \<open>Numbers\<close>

text \<open>
  The payroll engine is TypeScript; every amount, hour count and rate is a \<open>number\<close>,
  an IEEE 754 binary64 value, and every \<open>*\<close>, \<open>/\<close>, \<open>+\<close> and \<open>-\<close> returns the exact
  result rounded to the nearest binary64 value, ties to the even significand. The model
  reads a \<open>number\<close> as a real and writes this rounding out as \<open>binary64\<close>: a decimal
  literal such as \<open>0.0517\<close> is \<open>binary64 0.0517\<close>, and \<open>a * b\<close> is \<open>binary64 (a * b)\<close>,
  wherever a rate, a fraction or a fractional hour count takes part. Sums, differences and
  products of whole amounts (salary components, allowances, deductions, contributions, the
  dependent count) are whole numbers far below \<open>2^53\<close>, on which binary64 arithmetic is
  exact; they are written without the rounding.

  Comparisons, \<open>Math.min\<close> and \<open>Math.max\<close> are exact: \<open>\<le>\<close>, \<open>min\<close> and \<open>max\<close>.
  \<open>NaN\<close>, the infinities, overflow and the subnormal range are not modelled (the
  exponent of \<open>binary64\<close> is unbounded); where the source could produce \<open>undefined\<close>
  (a read from an empty table) the model returns \<open>None\<close>.
\<close>

subsection \<open>Rounding to binary64\<close>

text \<open>
  \<open>expo x\<close> is the binary exponent of a positive \<open>x\<close>: the integer \<open>e\<close> with
  \<open>2^e \<le> x < 2^(e+1)\<close>. It halves or doubles \<open>x\<close> until it lies in \<open>[1, 2)\<close>.
\<close>

function expo :: "real \<Rightarrow> int" where
  "expo x = (if 2 \<le> x then expo (x / 2) + 1
             else if 0 < x \<and> x < 1 then expo (2 * x) - 1
             else 0)"
  by pat_completeness auto
termination
proof (relation "measure (\<lambda>x. if 1 \<le> x then nat \<lfloor>x\<rfloor> else nat \<lceil>1 / x\<rceil> + 1)")
  show "wf (measure (\<lambda>x::real. if 1 \<le> x then nat \<lfloor>x\<rfloor> else nat \<lceil>1 / x\<rceil> + 1))"
    by simp
next
  fix x :: real
  assume "2 \<le> x"
  then have "\<lfloor>x / 2\<rfloor> < \<lfloor>x\<rfloor>" by linarith
  moreover have "0 \<le> \<lfloor>x / 2\<rfloor>" using \<open>2 \<le> x\<close> by simp
  ultimately show "(x / 2, x) \<in> measure (\<lambda>x. if 1 \<le> x then nat \<lfloor>x\<rfloor> else nat \<lceil>1 / x\<rceil> + 1)"
    using \<open>2 \<le> x\<close> by simp
next
  fix x :: real
  assume a: "\<not> 2 \<le> x" "0 < x \<and> x < 1"
  show "(2 * x, x) \<in> measure (\<lambda>x. if 1 \<le> x then nat \<lfloor>x\<rfloor> else nat \<lceil>1 / x\<rceil> + 1)"
  proof (cases "1 \<le> 2 * x")
    case True
    then have "\<lfloor>2 * x\<rfloor> = 1" using a by linarith
    moreover have "1 < 1 / x" using a by simp
    then have "2 \<le> \<lceil>1 / x\<rceil>" by linarith
    ultimately show ?thesis using True a by simp
  next
    case False
    then have "2 < 1 / x" using a by (simp add: field_simps)
    moreover have "1 / (2 * x) = (1 / x) / 2" by simp
    ultimately have "\<lceil>1 / (2 * x)\<rceil> < \<lceil>1 / x\<rceil>" by linarith
    moreover have "0 < \<lceil>1 / (2 * x)\<rceil>" using a by simp
    ultimately show ?thesis using False a by simp
  qed
qed

declare expo.simps [simp del]

text \<open>Rounding a real to the nearest integer, a tie to the even one.\<close>

definition roundTiesToEven :: "real \<Rightarrow> int" where
  "roundTiesToEven r =
     (let f = \<lfloor>r\<rfloor>; d = r - of_int f
      in if d < 1 / 2 then f
         else if 1 / 2 < d then f + 1
         else if even f then f else f + 1)"

text \<open>The powers of two, also the negative ones.\<close>

definition twoPow :: "int \<Rightarrow> real" where
  "twoPow k = (if 0 \<le> k then 2 ^ nat k else 1 / 2 ^ nat (- k))"

text \<open>
  The nearest value with a significand of 53 bits: the unit in the last place of \<open>x\<close> is
  \<open>2^(expo |x| - 52)\<close>, and \<open>x\<close> is rounded to a whole multiple of it.
\<close>

definition binary64 :: "real \<Rightarrow> real" where
  "binary64 x =
     (if x = 0 then 0
      else (let ulp = twoPow (expo \<bar>x\<bar> - 52)
            in of_int (roundTiesToEven (x / ulp)) * ulp))"

subsection \<open>Math.round and Math.ceil\<close>

text \<open>
  \<open>Math.round\<close> rounds to the nearest integer and rounds a tie upwards
  (\<open>Math.round(277.5)\<close> is 278), \<open>Math.ceil\<close> is the least integer not below its
  argument. Both are exact on a binary64 argument.
\<close>

definition Math_round :: "real \<Rightarrow> real" where
  "Math_round x = of_int \<lfloor>x + 1 / 2\<rfloor>"

definition Math_ceil :: "real \<Rightarrow> real" where
  "Math_ceil x = of_int \<lceil>x\<rceil>"

section \<open>Rate constants and bracket tables (utils/taiwanLaborRules.ts)\<close>

text \<open>
  The sources hold two revisions of the rules module. Both have the same rates, the same
  labor and health tables and the same overtime calculator; the later one adds the
  pension table and \<open>getPensionInsuredSalary\<close>, which the application imports. The
  model follows the later revision and keeps the earlier \<open>calculatePension\<close> beside it.
\<close>

definition LABOR_INSURANCE_RATE :: real where "LABOR_INSURANCE_RATE = binary64 0.125"
definition LABOR_EMPLOYEE_SHARE :: real where "LABOR_EMPLOYEE_SHARE = binary64 0.20"
definition LABOR_EMPLOYER_SHARE :: real where "LABOR_EMPLOYER_SHARE = binary64 0.70"

definition HEALTH_INSURANCE_RATE :: real where "HEALTH_INSURANCE_RATE = binary64 0.0517"
definition HEALTH_EMPLOYEE_SHARE :: real where "HEALTH_EMPLOYEE_SHARE = binary64 0.30"
definition HEALTH_EMPLOYER_SHARE :: real where "HEALTH_EMPLOYER_SHARE = binary64 0.60"
definition AVG_DEPENDENTS_EMPLOYER :: real where "AVG_DEPENDENTS_EMPLOYER = binary64 0.58"

definition PENSION_RATE :: real where "PENSION_RATE = binary64 0.06"

definition LABOR_BRACKETS :: "real list" where
  "LABOR_BRACKETS =
    [11100, 12540, 13500, 15840, 16500, 17280, 17880, 19047, 20008,
     21009, 22000, 23100, 24000, 25250, 26400, 27600, 28500, 29500,
     30300, 31800, 33300, 34800, 36300, 38200, 40100, 42000, 43900, 45800]"

definition HEALTH_BRACKETS :: "real list" where
  "HEALTH_BRACKETS =
    [28590, 28800, 30300, 31800, 33300, 34800, 36300, 38200, 40100, 42000,
     43900, 45800, 48200, 50600, 53000, 55400, 57800, 60800, 63800, 66800,
     69800, 72800, 76500, 80200, 83900, 87600, 92100, 96600, 101100, 105600,
     110100, 115500, 120500, 125500, 131700, 137900, 144100, 150000, 156400,
     162800, 169200, 175600, 182000, 189500, 197000, 204500, 212000, 219500,
     228200, 236900, 245600, 254300, 263000, 273000, 283000, 293000, 303000, 313000]"

definition PENSION_BRACKETS :: "real list" where
  "PENSION_BRACKETS =
    [1500, 3000, 4500, 6000, 7500,
     8700, 9900, 11100, 12540, 13500,
     15840, 16500, 17280, 17880, 19047,
     20008, 21009, 22000, 23100, 24000,
     25250, 26400, 27600, 28590, 29500,
     30300, 31800, 33300, 34800, 36300,
     38200, 40100, 42000, 43900, 45800,
     48200, 50600, 53000, 55400, 57800,
     60800, 63800, 66800, 69800, 72800,
     76500, 80200, 83900, 87600, 92100,
     96600, 101100, 105600, 110100, 115500,
     120900, 126300, 131700, 137100, 142500,
     147900, 150000]"

section \<open>Bracket lookup\<close>

text \<open>
  The loop \<open>for (const bracket of BRACKETS) { if (salary <= bracket) return bracket; }\<close>:
  the first bracket, in table order, that is not below the salary; \<open>None\<close> when the loop
  ends without returning.
\<close>

fun firstBracket :: "real \<Rightarrow> real list \<Rightarrow> real option" where
  "firstBracket salary [] = None"
| "firstBracket salary (bracket # rest) =
     (if salary \<le> bracket then Some bracket else firstBracket salary rest)"

text \<open>
  \<open>getLaborInsuredSalary\<close>, \<open>getHealthInsuredSalary\<close> and \<open>getPensionInsuredSalary\<close>
  are three copies of one body, each over its own table. \<open>lookupTier\<close> is that body with
  the table as a parameter. On an empty table the source would read \<open>table[0]\<close> and
  \<open>table[table.length - 1]\<close> as \<open>undefined\<close>, fail the first comparison, skip the loop and
  return \<open>undefined\<close>: the model returns \<open>None\<close>.
\<close>

definition lookupTier :: "real list \<Rightarrow> real \<Rightarrow> real option" where
  "lookupTier table salary =
     (case table of
        [] \<Rightarrow> None
      | lowest # _ \<Rightarrow>
          if salary \<le> lowest then Some lowest
          else (case firstBracket salary table of
                  Some bracket \<Rightarrow> Some bracket
                | None \<Rightarrow> Some (table ! (length table - 1))))"

definition getLaborInsuredSalary :: "real \<Rightarrow> real" where
  "getLaborInsuredSalary salary =
     (if salary \<le> LABOR_BRACKETS ! 0 then LABOR_BRACKETS ! 0
      else (case firstBracket salary LABOR_BRACKETS of
              Some bracket \<Rightarrow> bracket
            | None \<Rightarrow> LABOR_BRACKETS ! (length LABOR_BRACKETS - 1)))"

definition getHealthInsuredSalary :: "real \<Rightarrow> real" where
  "getHealthInsuredSalary salary =
     (if salary \<le> HEALTH_BRACKETS ! 0 then HEALTH_BRACKETS ! 0
      else (case firstBracket salary HEALTH_BRACKETS of
              Some bracket \<Rightarrow> bracket
            | None \<Rightarrow> HEALTH_BRACKETS ! (length HEALTH_BRACKETS - 1)))"

definition getPensionInsuredSalary :: "real \<Rightarrow> real" where
  "getPensionInsuredSalary salary =
     (if salary \<le> PENSION_BRACKETS ! 0 then PENSION_BRACKETS ! 0
      else (case firstBracket salary PENSION_BRACKETS of
              Some bracket \<Rightarrow> bracket
            | None \<Rightarrow> PENSION_BRACKETS ! (length PENSION_BRACKETS - 1)))"

section \<open>Insurance calculator\<close>

text \<open>
  A product such as \<open>insuredSalary * LABOR_INSURANCE_RATE * LABOR_EMPLOYEE_SHARE\<close> is
  evaluated from the left, and each \<open>*\<close> rounds to binary64. The dependent count is a
  whole number, so \<open>1 + Math.min(dependents, 3)\<close> and the product of the rounded single
  share with it are exact.
\<close>

definition calculateLaborInsurance :: "real \<Rightarrow> real" where
  "calculateLaborInsurance salary =
     (let insuredSalary = getLaborInsuredSalary salary
      in Math_round (binary64 (binary64 (insuredSalary * LABOR_INSURANCE_RATE) * LABOR_EMPLOYEE_SHARE)))"

definition calculateHealthInsurance :: "real \<Rightarrow> real \<Rightarrow> real" where
  "calculateHealthInsurance salary dependents =
     (let insuredSalary = getHealthInsuredSalary salary;
          singleShare = Math_round (binary64 (binary64 (insuredSalary * HEALTH_INSURANCE_RATE)
                                                * HEALTH_EMPLOYEE_SHARE));
          chargeableCount = 1 + min dependents 3
      in singleShare * chargeableCount)"

definition calculateLaborInsuranceEmployer :: "real \<Rightarrow> real" where
  "calculateLaborInsuranceEmployer salary =
     (let insuredSalary = getLaborInsuredSalary salary
      in Math_round (binary64 (binary64 (insuredSalary * LABOR_INSURANCE_RATE) * LABOR_EMPLOYER_SHARE)))"

definition calculateHealthInsuranceEmployer :: "real \<Rightarrow> real" where
  "calculateHealthInsuranceEmployer salary =
     (let insuredSalary = getHealthInsuredSalary salary
      in Math_round (binary64 (binary64 (binary64 (insuredSalary * HEALTH_INSURANCE_RATE)
                                         * HEALTH_EMPLOYER_SHARE)
                               * binary64 (1 + AVG_DEPENDENTS_EMPLOYER))))"

text \<open>
  \<open>calculatePension\<close> as the application imports it together with
  \<open>getPensionInsuredSalary\<close> and \<open>PENSION_BRACKETS\<close>: the pension tier is looked up in the
  pension table.
\<close>

definition calculatePension :: "real \<Rightarrow> real" where
  "calculatePension salaryForPension =
     (let insuredSalary = getPensionInsuredSalary salaryForPension
      in Math_round (binary64 (insuredSalary * PENSION_RATE)))"

text \<open>
  The earlier revision of the rules module has no pension table: its \<open>calculatePension\<close>
  looks the tier up in the labor table, and so caps the pension basis at 45800.
\<close>

definition calculatePension_legacy :: "real \<Rightarrow> real" where
  "calculatePension_legacy salary =
     (let insuredSalary = getLaborInsuredSalary salary
      in Math_round (binary64 (insuredSalary * PENSION_RATE)))"

section \<open>Overtime calculator\<close>

text \<open>
  The source accumulates into the variable \<open>total\<close>: \<open>total1\<close>, \<open>total2\<close> and \<open>total3\<close>
  are its values after the weekday, the rest-day and the holiday block, and \<open>t\<close> is its
  value after the first \<open>+=\<close> of a block. Every \<open>+=\<close> rounds its sum to binary64.
  \<open>hourlyRate * firstTwo * (4/3)\<close> is evaluated from the left, each \<open>*\<close> rounded, and
  \<open>4/3\<close> and \<open>5/3\<close> are rounded quotients of their own.
\<close>

definition calculateOvertimePay :: "real \<Rightarrow> real \<Rightarrow> real \<Rightarrow> real \<Rightarrow> real" where
  "calculateOvertimePay regularSalary weekdayHours restDayHours holidayHours =
     (let hourlyRate = binary64 (regularSalary / 240);
          total0 = 0;
          total1 =
            (if weekdayHours > 0 then
               (let firstTwo = min weekdayHours 2;
                    remaining = max 0 (binary64 (weekdayHours - 2));
                    t = binary64 (total0 + binary64 (binary64 (hourlyRate * firstTwo) * binary64 (4 / 3)))
                in binary64 (t + binary64 (binary64 (hourlyRate * remaining) * binary64 (5 / 3))))
             else total0);
          total2 =
            (if restDayHours > 0 then
               (let firstTwo = min restDayHours 2;
                    remaining = max 0 (binary64 (restDayHours - 2));
                    t = binary64 (total1 + binary64 (binary64 (hourlyRate * firstTwo) * binary64 (4 / 3)))
                in binary64 (t + binary64 (binary64 (hourlyRate * remaining) * binary64 (5 / 3))))
             else total1);
          total3 =
            (if holidayHours > 0 then
               (let t = binary64 (total2 + binary64 (hourlyRate * 8))
                in if holidayHours > 8 then
                     (let extra = binary64 (holidayHours - 8)
                      in binary64 (t + binary64 (binary64 (hourlyRate * extra) * binary64 (4 / 3))))
                   else t)
             else total2)
      in Math_ceil total3)"

text \<open>
  The two kinds of block of the function body, named for the proofs: the block of
  the weekday and of the rest-day hours, and the block of the holiday hours, each taking
  the hourly rate and the running total and returning the new total.
\<close>

definition tieredBlock :: "real \<Rightarrow> real \<Rightarrow> real \<Rightarrow> real" where
  "tieredBlock hourlyRate total0 hours =
     (if hours > 0 then
        (let firstTwo = min hours 2;
             remaining = max 0 (binary64 (hours - 2));
             t = binary64 (total0 + binary64 (binary64 (hourlyRate * firstTwo) * binary64 (4 / 3)))
         in binary64 (t + binary64 (binary64 (hourlyRate * remaining) * binary64 (5 / 3))))
      else total0)"

definition holidayBlock :: "real \<Rightarrow> real \<Rightarrow> real \<Rightarrow> real" where
  "holidayBlock hourlyRate total0 hours =
     (if hours > 0 then
        (let t = binary64 (total0 + binary64 (hourlyRate * 8))
         in if hours > 8 then
              (let extra = binary64 (hours - 8)
               in binary64 (t + binary64 (binary64 (hourlyRate * extra) * binary64 (4 / 3))))
            else t)
      else total0)"

text \<open>
  The overtime pay as the specification words it: the ceiling of the sum of the three
  categories, in exact arithmetic, with no rounding before the ceiling.
\<close>

definition calculateOvertimePay_spec :: "real \<Rightarrow> real \<Rightarrow> real \<Rightarrow> real \<Rightarrow> real" where
  "calculateOvertimePay_spec regularSalary weekdayHours restDayHours holidayHours =
     (let rate = regularSalary / 240 in
      of_int \<lceil>(rate * min weekdayHours 2 * (4 / 3) + rate * max 0 (weekdayHours - 2) * (5 / 3))
            + (rate * min restDayHours 2 * (4 / 3) + rate * max 0 (restDayHours - 2) * (5 / 3))
            + ((if 0 < holidayHours then rate * 8 else 0)
               + (if 8 < holidayHours then rate * (holidayHours - 8) * (4 / 3) else 0))\<rceil>)"

section \<open>Data model (types.ts)\<close>

text \<open>
  Field names are the source's, except where two interfaces share a name or the name is
  a constant of HOL: \<open>Allowance.id\<close>, \<open>name\<close>, \<open>amount\<close> carry the prefix
  \<open>allowance_\<close>, those of \<open>Deduction\<close> the prefix \<open>deduction_\<close>, and \<open>Employee.id\<close>,
  \<open>name\<close> and \<open>note\<close> the prefix \<open>emp_\<close>. The optional \<open>note\<close> is an option.
\<close>

record Allowance =
  allowance_id :: string
  allowance_name :: string
  allowance_amount :: real

record Deduction =
  deduction_id :: string
  deduction_name :: string
  deduction_amount :: real

record Employee =
  emp_id :: string
  emp_name :: string
  position :: string
  department :: string
  emp_note :: "string option"
  bankName :: string
  bankAccount :: string
  baseSalary :: real
  mealAllowance :: real
  fuelAllowance :: real
  attendanceBonus :: real
  useBaseSalaryForInsurance :: bool
  otHoursWeekday :: real
  otHoursRestDay :: real
  otHoursHoliday :: real
  dependents :: real
  customAllowances :: "Allowance list"
  customDeductions :: "Deduction list"
  joinDate :: string

record CalculatedPayroll =
  employeeId :: string
  insuredSalary :: real
  insuredSalaryHealth :: real
  insuredSalaryPension :: real
  laborInsuranceEmp :: real
  healthInsuranceEmp :: real
  totalCustomDeductions :: real
  laborInsuranceCo :: real
  healthInsuranceCo :: real
  pensionCompany :: real
  overtimePay :: real
  grossSalary :: real
  totalDeductions :: real
  netPay :: real
  totalCompanyCost :: real

section \<open>Payroll aggregator (App.tsx)\<close>

text \<open>
  The component state \<open>const [useBaseSalaryForPension] = useState(false)\<close> has no setter:
  it is the constant \<open>false\<close>.
\<close>

definition useBaseSalaryForPension :: bool where
  "useBaseSalaryForPension = False"

text \<open>
  The body of the \<open>employees.forEach\<close> callback of \<open>payrolls\<close>, up to the
  \<open>map.set\<close>: the settled record of one employee. \<open>reduce\<close> is a left fold.
\<close>

definition computePayroll :: "Employee \<Rightarrow> CalculatedPayroll" where
  "computePayroll emp =
     (let regularSalary = baseSalary emp + mealAllowance emp + fuelAllowance emp + attendanceBonus emp;
          overtimePay' = calculateOvertimePay regularSalary (otHoursWeekday emp) (otHoursRestDay emp) (otHoursHoliday emp);
          fixedMonthlyTotal = regularSalary + foldl (\<lambda>s c. s + allowance_amount c) 0 (customAllowances emp);
          grossSalary' = fixedMonthlyTotal + overtimePay';
          insuranceBasisSalary = (if useBaseSalaryForInsurance emp then baseSalary emp else fixedMonthlyTotal);
          insuredSalary' = getLaborInsuredSalary insuranceBasisSalary;
          insuredSalaryHealth' = getHealthInsuredSalary insuranceBasisSalary;
          pensionBasisSalary = (if useBaseSalaryForPension \<or> useBaseSalaryForInsurance emp
                                then baseSalary emp else fixedMonthlyTotal);
          insuredSalaryPension' = getPensionInsuredSalary pensionBasisSalary;
          laborEmp = calculateLaborInsurance insuranceBasisSalary;
          healthEmp = calculateHealthInsurance insuranceBasisSalary (dependents emp);
          totalCustomDeductions' = foldl (\<lambda>s d. s + deduction_amount d) 0 (customDeductions emp);
          totalDeductions' = laborEmp + healthEmp + totalCustomDeductions';
          laborCo = calculateLaborInsuranceEmployer insuranceBasisSalary;
          healthCo = calculateHealthInsuranceEmployer insuranceBasisSalary;
          pension = calculatePension pensionBasisSalary;
          netPay' = grossSalary' - totalDeductions';
          totalCompanyCost' = netPay' + laborCo + healthCo + pension
      in \<lparr> employeeId = emp_id emp,
           insuredSalary = insuredSalary',
           insuredSalaryHealth = insuredSalaryHealth',
           insuredSalaryPension = insuredSalaryPension',
           laborInsuranceEmp = laborEmp,
           healthInsuranceEmp = healthEmp,
           totalCustomDeductions = totalCustomDeductions',
           laborInsuranceCo = laborCo,
           healthInsuranceCo = healthCo,
           pensionCompany = pension,
           overtimePay = overtimePay',
           grossSalary = grossSalary',
           totalDeductions = totalDeductions',
           netPay = netPay',
           totalCompanyCost = totalCompanyCost' \<rparr>)"

text \<open>
  \<open>payrolls\<close>: a fresh \<open>Map\<close>, one \<open>map.set(emp.id, ...)\<close> per record, in list order.
  A later record with the same id overwrites the earlier entry.
\<close>

definition computePayrollBatch :: "Employee list \<Rightarrow> (string \<rightharpoonup> CalculatedPayroll)" where
  "computePayrollBatch employees =
     foldl (\<lambda>m emp. m(emp_id emp \<mapsto> computePayroll emp)) Map.empty employees"

text \<open>The fallback record \<open>initialEmployees[0]\<close>; its display strings are transliterated.\<close>

definition initialEmployee :: Employee where
  "initialEmployee =
     \<lparr> emp_id = ''1'',
       emp_name = ''Wang Xiaoming'',
       position = ''Senior Engineer'',
       department = ''R and D'',
       emp_note = Some '''',
       bankName = ''CTBC'',
       bankAccount = ''1234-5678-0000'',
       baseSalary = 60000,
       mealAllowance = 3000,
       fuelAllowance = 1000,
       attendanceBonus = 2000,
       useBaseSalaryForInsurance = False,
       otHoursWeekday = 3,
       otHoursRestDay = 0,
       otHoursHoliday = 0,
       dependents = 0,
       customAllowances = [\<lparr> allowance_id = ''a1'', allowance_name = ''Project bonus'', allowance_amount = 5000 \<rparr>],
       customDeductions = [],
       joinDate = ''2023-01-15'' \<rparr>"

text \<open>
  Two more records for concrete batches: the record of a second employee under an id of
  its own, and the same record under the id of the first, as a stored or synchronised employee list may
  hold it (the list is loaded as it is, without a check of the ids).
\<close>

definition secondEmployee :: Employee where
  "secondEmployee =
     initialEmployee \<lparr> emp_id := ''2'', emp_name := ''Lin Meiling'', baseSalary := 30000 \<rparr>"

definition duplicateEmployee :: Employee where
  "duplicateEmployee = secondEmployee \<lparr> emp_id := ''1'' \<rparr>"

section \<open>Properties of the rounding to binary64\<close>

text \<open>
  The exponent brackets its argument between two powers of two; the rounding keeps the
  sign and the order, fixes zero and every value it returns.
\<close>

lemma twoPow_powr: "twoPow k = 2 powr real_of_int k"
  by (simp add: twoPow_def powr_int)

lemma binary64_powr:
  "binary64 x =
     (if x = 0 then 0
      else (let ulp = 2 powr real_of_int (expo \<bar>x\<bar> - 52)
            in of_int (roundTiesToEven (x / ulp)) * ulp))"
  by (simp add: binary64_def twoPow_powr)

lemma pow2_Suc: "2 powr real_of_int (k + 1) = 2 * 2 powr real_of_int k"
  by (simp add: powr_add)

lemma pow2_pred: "2 powr real_of_int (k - 1) = 2 powr real_of_int k / 2"
  by (simp add: powr_diff)

lemma pow2_less_iff: "2 powr real_of_int j < 2 powr real_of_int k \<longleftrightarrow> j < k"
  by simp

lemma pow2_le_iff: "2 powr real_of_int j \<le> 2 powr real_of_int k \<longleftrightarrow> j \<le> k"
  by simp

lemma expo_bounds:
  "0 < x \<Longrightarrow> 2 powr real_of_int (expo x) \<le> x \<and> x < 2 * 2 powr real_of_int (expo x)"
proof (induction x rule: expo.induct)
  case (1 x)
  show ?case
  proof (cases "2 \<le> x")
    case True
    then have e: "expo x = expo (x / 2) + 1" by (simp add: expo.simps [of x])
    have "2 powr real_of_int (expo (x / 2)) \<le> x / 2 \<and> x / 2 < 2 * 2 powr real_of_int (expo (x / 2))"
      using "1.IH"(1) [OF True] "1.prems" by simp
    then show ?thesis unfolding e pow2_Suc by linarith
  next
    case False
    show ?thesis
    proof (cases "x < 1")
      case True
      with "1.prems" have c: "0 < x \<and> x < 1" by simp
      then have e: "expo x = expo (2 * x) - 1" using False by (simp add: expo.simps [of x])
      have "2 powr real_of_int (expo (2 * x)) \<le> 2 * x \<and> 2 * x < 2 * 2 powr real_of_int (expo (2 * x))"
        using "1.IH"(2) [OF False c] "1.prems" by simp
      then show ?thesis unfolding e pow2_pred by linarith
    next
      case ge: False
      then have e: "expo x = 0" using False by (simp add: expo.simps [of x])
      show ?thesis unfolding e using False ge by simp
    qed
  qed
qed

lemma expo_unique:
  assumes "2 powr real_of_int k \<le> x" and "x < 2 * 2 powr real_of_int k"
  shows "expo x = k"
proof -
  have "0 < 2 powr real_of_int k" by simp
  with assms(1) have pos: "0 < x" by linarith
  note b = expo_bounds [OF pos]
  have "2 powr real_of_int k < 2 powr real_of_int (expo x + 1)"
    unfolding pow2_Suc using assms(1) b by linarith
  then have "k < expo x + 1" by (simp only: pow2_less_iff)
  moreover have "2 powr real_of_int (expo x) < 2 powr real_of_int (k + 1)"
    unfolding pow2_Suc using assms(2) b by linarith
  then have "expo x < k + 1" by (simp only: pow2_less_iff)
  ultimately show ?thesis by simp
qed

lemma expo_mono:
  assumes "0 < x" and "x \<le> y"
  shows "expo x \<le> expo y"
proof -
  from assms have posy: "0 < y" by simp
  have "2 powr real_of_int (expo x) < 2 powr real_of_int (expo y + 1)"
    unfolding pow2_Suc using expo_bounds [OF assms(1)] expo_bounds [OF posy] assms(2) by linarith
  then have "expo x < expo y + 1" by (simp only: pow2_less_iff)
  then show ?thesis by simp
qed

lemma roundTiesToEven_of_int [simp]: "roundTiesToEven (of_int k) = k"
  by (simp add: roundTiesToEven_def)

lemma roundTiesToEven_range:
  "\<lfloor>r\<rfloor> \<le> roundTiesToEven r \<and> roundTiesToEven r \<le> \<lfloor>r\<rfloor> + 1"
  by (simp add: roundTiesToEven_def Let_def)

lemma roundTiesToEven_mono:
  assumes "r \<le> s"
  shows "roundTiesToEven r \<le> roundTiesToEven s"
proof (cases "\<lfloor>r\<rfloor> = \<lfloor>s\<rfloor>")
  case True
  then show ?thesis using assms by (auto simp: roundTiesToEven_def Let_def)
next
  case False
  moreover have "\<lfloor>r\<rfloor> \<le> \<lfloor>s\<rfloor>" using assms by (rule floor_mono)
  ultimately have "\<lfloor>r\<rfloor> + 1 \<le> \<lfloor>s\<rfloor>" by simp
  then show ?thesis
    using roundTiesToEven_range [of r] roundTiesToEven_range [of s] by linarith
qed

lemma roundTiesToEven_minus: "roundTiesToEven (- r) = - roundTiesToEven r"
proof (cases "r = of_int \<lfloor>r\<rfloor>")
  case True
  then obtain k where "r = of_int k" ..
  then have "roundTiesToEven (- r) = roundTiesToEven (of_int (- k))" by simp
  then show ?thesis unfolding \<open>r = of_int k\<close> by (simp only: roundTiesToEven_of_int)
next
  case False
  then have fl: "\<lfloor>- r\<rfloor> = - \<lfloor>r\<rfloor> - 1" by linarith
  show ?thesis
    unfolding roundTiesToEven_def Let_def fl
    using False by (auto simp: algebra_simps)
qed


lemma ulp_scale: "2 ^ 52 * 2 powr real_of_int (e - 52) = 2 powr real_of_int e"
proof -
  have "2 powr real_of_int e = 2 powr (real_of_int (e - 52) + 52)" by simp
  also have "\<dots> = 2 powr real_of_int (e - 52) * 2 powr 52" by (rule powr_add)
  also have "(2::real) powr 52 = 2 ^ 52" by simp
  finally show ?thesis by simp
qed

lemma binary64_zero [simp]: "binary64 0 = 0"
  by (simp add: binary64_def)

lemma binary64_minus: "binary64 (- x) = - binary64 x"
  by (simp add: binary64_powr Let_def roundTiesToEven_minus)

lemma binary64_pos:
  "0 < x \<Longrightarrow>
   binary64 x = of_int (roundTiesToEven (x / 2 powr real_of_int (expo x - 52)))
                  * 2 powr real_of_int (expo x - 52)"
  by (simp add: binary64_powr Let_def)

lemma significand_bounds:
  assumes "0 < x"
  shows "2 ^ 52 \<le> x / 2 powr real_of_int (expo x - 52)
       \<and> x / 2 powr real_of_int (expo x - 52) < 2 ^ 53"
proof -
  let ?u = "2 powr real_of_int (expo x - 52)"
  have u: "0 < ?u" by simp
  have "2 ^ 52 * ?u \<le> x" "x < 2 * (2 ^ 52 * ?u)"
    unfolding ulp_scale using expo_bounds [OF assms] by simp_all
  then have "2 ^ 52 * ?u \<le> x" "x < 2 ^ 53 * ?u" by simp_all
  then show ?thesis using u by (simp add: pos_le_divide_eq pos_divide_less_eq)
qed

lemma significand_rounded:
  assumes "0 < x"
  shows "2 ^ 52 \<le> roundTiesToEven (x / 2 powr real_of_int (expo x - 52))
       \<and> roundTiesToEven (x / 2 powr real_of_int (expo x - 52)) \<le> 2 ^ 53"
proof -
  let ?q = "x / 2 powr real_of_int (expo x - 52)"
  have a: "real_of_int (2 ^ 52) \<le> ?q" and b: "?q \<le> real_of_int (2 ^ 53)"
    using significand_bounds [OF assms] by simp_all
  have "roundTiesToEven (real_of_int (2 ^ 52)) \<le> roundTiesToEven ?q"
    using a by (rule roundTiesToEven_mono)
  moreover have "roundTiesToEven ?q \<le> roundTiesToEven (real_of_int (2 ^ 53))"
    using b by (rule roundTiesToEven_mono)
  ultimately show ?thesis by (simp only: roundTiesToEven_of_int)
qed

lemma binary64_pos_bounds:
  assumes "0 < x"
  shows "2 powr real_of_int (expo x) \<le> binary64 x
       \<and> binary64 x \<le> 2 * 2 powr real_of_int (expo x)"
proof -
  let ?u = "2 powr real_of_int (expo x - 52)"
  let ?m = "roundTiesToEven (x / ?u)"
  have u: "0 < ?u" by simp
  have lo: "(2::int) ^ 52 \<le> ?m" and hi: "?m \<le> 2 ^ 53"
    using significand_rounded [OF assms] by simp_all
  have m1: "real_of_int (2 ^ 52) * ?u \<le> real_of_int ?m * ?u"
    by (rule mult_right_mono) (use lo u in simp_all)
  have m2: "real_of_int ?m * ?u \<le> real_of_int (2 ^ 53) * ?u"
    by (rule mult_right_mono) (use hi u in simp_all)
  have e1: "real_of_int (2 ^ 52) * ?u = 2 powr real_of_int (expo x)"
    using ulp_scale [of "expo x"] by simp
  have e2: "real_of_int (2 ^ 53) * ?u = 2 * 2 powr real_of_int (expo x)"
    using ulp_scale [of "expo x"] by simp
  from m1 [unfolded e1] m2 [unfolded e2] show ?thesis
    unfolding binary64_pos [OF assms] by (rule conjI)
qed

lemma binary64_nonneg: "0 \<le> x \<Longrightarrow> 0 \<le> binary64 x"
proof (cases "x = 0")
  case True
  then show ?thesis by simp
next
  case False
  assume "0 \<le> x"
  with False have pos: "0 < x" by simp
  have "0 < 2 powr real_of_int (expo x)" by simp
  with binary64_pos_bounds [OF pos] show ?thesis by linarith
qed

lemma binary64_mono_pos:
  assumes "0 < x" and "x \<le> y"
  shows "binary64 x \<le> binary64 y"
proof -
  from assms have posy: "0 < y" by simp
  have le: "expo x \<le> expo y" using assms by (rule expo_mono)
  show ?thesis
  proof (cases "expo x = expo y")
    case True
    let ?u = "2 powr real_of_int (expo y - 52)"
    have u: "0 < ?u" by simp
    have "x / ?u \<le> y / ?u" using assms(2) u by (simp add: divide_right_mono)
    then have "roundTiesToEven (x / ?u) \<le> roundTiesToEven (y / ?u)"
      by (rule roundTiesToEven_mono)
    then have "real_of_int (roundTiesToEven (x / ?u)) * ?u \<le> real_of_int (roundTiesToEven (y / ?u)) * ?u"
      using u by (simp only: mult_le_cancel_right_pos of_int_le_iff)
    then show ?thesis
      unfolding binary64_pos [OF assms(1)] binary64_pos [OF posy] True .
  next
    case False
    with le have "expo x + 1 \<le> expo y" by simp
    then have "2 powr real_of_int (expo x + 1) \<le> 2 powr real_of_int (expo y)"
      by (simp only: pow2_le_iff)
    then have "2 * 2 powr real_of_int (expo x) \<le> 2 powr real_of_int (expo y)"
      unfolding pow2_Suc .
    then show ?thesis
      using binary64_pos_bounds [OF assms(1)] binary64_pos_bounds [OF posy] by linarith
  qed
qed

lemma binary64_mono:
  assumes "x \<le> y"
  shows "binary64 x \<le> binary64 y"
proof (cases "0 < x")
  case True
  then show ?thesis using assms by (rule binary64_mono_pos)
next
  case False
  then have x: "x \<le> 0" by simp
  show ?thesis
  proof (cases "0 \<le> y")
    case True
    have "0 \<le> binary64 (- x)" using x by (simp add: binary64_nonneg)
    then have "binary64 x \<le> 0" by (simp add: binary64_minus)
    also have "0 \<le> binary64 y" using True by (rule binary64_nonneg)
    finally show ?thesis .
  next
    case False
    then have "0 < - y" "- y \<le> - x" using assms by simp_all
    then have "binary64 (- y) \<le> binary64 (- x)" by (rule binary64_mono_pos)
    then show ?thesis by (simp add: binary64_minus)
  qed
qed


lemma binary64_idem_pos:
  assumes "0 < x"
  shows "binary64 (binary64 x) = binary64 x"
proof -
  let ?e = "expo x"
  let ?u = "2 powr real_of_int (?e - 52)"
  let ?m = "roundTiesToEven (x / ?u)"
  let ?y = "real_of_int ?m * ?u"
  have u: "0 < ?u" by simp
  have y: "binary64 x = ?y" using assms by (rule binary64_pos)
  have lo: "(2::int) ^ 52 \<le> ?m" and hi: "?m \<le> 2 ^ 53"
    using significand_rounded [OF assms] by simp_all
  have bounds: "2 powr real_of_int ?e \<le> ?y" "?y \<le> 2 * 2 powr real_of_int ?e"
    using binary64_pos_bounds [OF assms] unfolding y by simp_all
  have p: "0 < 2 powr real_of_int ?e" by simp
  with bounds(1) have ypos: "0 < ?y" by linarith
  show ?thesis
  proof (cases "?m = 2 ^ 53")
    case False
    with hi have "?m + 1 \<le> 2 ^ 53" by simp
    then have "real_of_int (?m + 1) * ?u \<le> real_of_int (2 ^ 53) * ?u"
      by (intro mult_right_mono) (use u in simp_all)
    moreover have "real_of_int (2 ^ 53) * ?u = 2 * 2 powr real_of_int ?e"
      using ulp_scale [of ?e] by simp
    moreover have "real_of_int (?m + 1) * ?u = ?y + ?u" by (simp add: algebra_simps)
    ultimately have "?y < 2 * 2 powr real_of_int ?e" using u by linarith
    with bounds(1) have ey: "expo ?y = ?e" by (rule expo_unique)
    have "?y / ?u = real_of_int ?m" using u by simp
    then have "binary64 ?y = ?y"
      unfolding binary64_pos [OF ypos] ey by (simp only: roundTiesToEven_of_int)
    then show ?thesis unfolding y .
  next
    case True
    let ?u' = "2 powr real_of_int (?e + 1 - 52)"
    have top: "?y = 2 powr real_of_int (?e + 1)"
      unfolding True pow2_Suc using ulp_scale [of ?e] by simp
    have ey: "expo ?y = ?e + 1"
    proof (rule expo_unique)
      show "2 powr real_of_int (?e + 1) \<le> ?y" unfolding top by simp
      have "0 < 2 powr real_of_int (?e + 1)" by simp
      then show "?y < 2 * 2 powr real_of_int (?e + 1)" unfolding top by linarith
    qed
    have "real_of_int (2 ^ 52) * ?u' = ?y"
      unfolding top using ulp_scale [of "?e + 1"] by simp
    then have q: "?y / ?u' = real_of_int (2 ^ 52)" by (simp add: field_simps)
    have "binary64 ?y = real_of_int (2 ^ 52) * ?u'"
      unfolding binary64_pos [OF ypos] ey q by (simp only: roundTiesToEven_of_int)
    then have "binary64 ?y = ?y" using \<open>real_of_int (2 ^ 52) * ?u' = ?y\<close> by simp
    then show ?thesis unfolding y .
  qed
qed

lemma binary64_idem: "binary64 (binary64 x) = binary64 x"
proof (cases "0 < x")
  case True
  then show ?thesis by (rule binary64_idem_pos)
next
  case False
  show ?thesis
  proof (cases "x = 0")
    case True
    then show ?thesis by simp
  next
    case nz: False
    with False have "0 < - x" by simp
    then have "binary64 (binary64 (- x)) = binary64 (- x)" by (rule binary64_idem_pos)
    then show ?thesis by (simp add: binary64_minus)
  qed
qed

lemmas binary64_compute = binary64_def twoPow_def Let_def expo.simps roundTiesToEven_def

text \<open>The rates, as the binary64 values of their decimal literals.\<close>

lemma rate_values:
  "LABOR_INSURANCE_RATE = 1 / 8"
  "LABOR_EMPLOYEE_SHARE = 3602879701896397 / 2 ^ 54"
  "LABOR_EMPLOYER_SHARE = 3152519739159347 / 2 ^ 52"
  "HEALTH_INSURANCE_RATE = 7450755223521749 / 2 ^ 57"
  "HEALTH_EMPLOYEE_SHARE = 5404319552844595 / 2 ^ 54"
  "HEALTH_EMPLOYER_SHARE = 5404319552844595 / 2 ^ 53"
  "AVG_DEPENDENTS_EMPLOYER = 5224175567749775 / 2 ^ 53"
  "PENSION_RATE = 1080863910568919 / 2 ^ 54"
  by (simp_all add: LABOR_INSURANCE_RATE_def LABOR_EMPLOYEE_SHARE_def LABOR_EMPLOYER_SHARE_def
      HEALTH_INSURANCE_RATE_def HEALTH_EMPLOYEE_SHARE_def HEALTH_EMPLOYER_SHARE_def
      AVG_DEPENDENTS_EMPLOYER_def PENSION_RATE_def binary64_compute)

lemma list_all_Nil: "list_all P [] = True"
  by simp

section \<open>Properties of the bracket lookup\<close>

text \<open>The scanning loop is the library's \<open>find\<close> with the predicate of the source.\<close>

lemma firstBracket_find: "firstBracket salary table = List.find (\<lambda>t. salary \<le> t) table"
  by (induction table) simp_all

lemma firstBracket_None_iff:
  "firstBracket salary table = None \<longleftrightarrow> (\<forall>t\<in>set table. t < salary)"
  by (induction table) (auto simp: not_le)

lemma firstBracket_Some_mem:
  "firstBracket salary table = Some b \<Longrightarrow> b \<in> set table \<and> salary \<le> b"
  by (induction table) (auto split: if_splits)

lemma firstBracket_Some_least:
  "sorted table \<Longrightarrow> firstBracket salary table = Some b \<Longrightarrow> t \<in> set table \<Longrightarrow> salary \<le> t \<Longrightarrow> b \<le> t"
  by (induction table) (auto split: if_splits)

lemma firstBracket_Min:
  assumes "sorted table" and "firstBracket salary table = Some b"
  shows "Min {t \<in> set table. salary \<le> t} = b"
proof (rule Min_eqI)
  show "finite {t \<in> set table. salary \<le> t}" by simp
next
  fix y assume "y \<in> {t \<in> set table. salary \<le> t}"
  then show "b \<le> y" using assms firstBracket_Some_least by blast
next
  show "b \<in> {t \<in> set table. salary \<le> t}"
    using firstBracket_Some_mem [OF assms(2)] by simp
qed

lemma sorted_le_last: "sorted table \<Longrightarrow> y \<in> set table \<Longrightarrow> y \<le> last table"
  by (induction table) auto

lemma sorted_last_Max:
  assumes "table \<noteq> []" and "sorted table"
  shows "last table = Max (set table)"
proof -
  have "Max (set table) = last table"
  proof (rule Max_eqI)
    show "finite (set table)" by simp
  next
    fix y assume "y \<in> set table"
    then show "y \<le> last table" using assms(2) by (simp add: sorted_le_last)
  next
    show "last table \<in> set table" using assms(1) by simp
  qed
  then show ?thesis by simp
qed

text \<open>The three tables of the source are non-empty and strictly ascending.\<close>

lemma LABOR_BRACKETS_nonempty: "LABOR_BRACKETS \<noteq> []"
  by (simp add: LABOR_BRACKETS_def)

lemma HEALTH_BRACKETS_nonempty: "HEALTH_BRACKETS \<noteq> []"
  by (simp add: HEALTH_BRACKETS_def)

lemma PENSION_BRACKETS_nonempty: "PENSION_BRACKETS \<noteq> []"
  by (simp add: PENSION_BRACKETS_def)

lemma LABOR_BRACKETS_ascending: "sorted_wrt (<) LABOR_BRACKETS"
  unfolding LABOR_BRACKETS_def by (simp add: sorted_wrt2 sorted_wrt1 del: sorted_wrt.simps)

lemma HEALTH_BRACKETS_ascending: "sorted_wrt (<) HEALTH_BRACKETS"
  unfolding HEALTH_BRACKETS_def by (simp add: sorted_wrt2 sorted_wrt1 del: sorted_wrt.simps)

lemma PENSION_BRACKETS_ascending: "sorted_wrt (<) PENSION_BRACKETS"
  unfolding PENSION_BRACKETS_def by (simp add: sorted_wrt2 sorted_wrt1 del: sorted_wrt.simps)

text \<open>
  Each of the three lookups of the source is \<open>lookupTier\<close> at its table, and always
  returns a tier.
\<close>

lemma lookupTier_nonempty:
  "table \<noteq> [] \<Longrightarrow>
   lookupTier table salary =
     Some (if salary \<le> table ! 0 then table ! 0
           else (case firstBracket salary table of
                   Some bracket \<Rightarrow> bracket
                 | None \<Rightarrow> table ! (length table - 1)))"
  by (cases table) (simp_all add: lookupTier_def split: option.split)

lemma lookupTier_LABOR:
  "lookupTier LABOR_BRACKETS salary = Some (getLaborInsuredSalary salary)"
  unfolding getLaborInsuredSalary_def
  using LABOR_BRACKETS_nonempty by (rule lookupTier_nonempty)

lemma lookupTier_HEALTH:
  "lookupTier HEALTH_BRACKETS salary = Some (getHealthInsuredSalary salary)"
  unfolding getHealthInsuredSalary_def
  using HEALTH_BRACKETS_nonempty by (rule lookupTier_nonempty)

lemma lookupTier_PENSION:
  "lookupTier PENSION_BRACKETS salary = Some (getPensionInsuredSalary salary)"
  unfolding getPensionInsuredSalary_def
  using PENSION_BRACKETS_nonempty by (rule lookupTier_nonempty)

lemma lookupTier_mem: "lookupTier table salary = Some t \<Longrightarrow> t \<in> set table"
proof (cases table)
  case Nil
  assume "lookupTier table salary = Some t"
  then show ?thesis using Nil by (simp add: lookupTier_def)
next
  case (Cons lowest rest)
  assume look: "lookupTier table salary = Some t"
  show ?thesis
  proof (cases "salary \<le> lowest")
    case True
    then show ?thesis using look Cons by (simp add: lookupTier_def)
  next
    case False
    show ?thesis
    proof (cases "firstBracket salary table")
      case None
      then have "t = table ! (length table - 1)"
        using look Cons False by (simp add: lookupTier_def)
      moreover have "length table - 1 < length table" using Cons by simp
      then have "table ! (length table - 1) \<in> set table" by (rule nth_mem)
      ultimately show ?thesis by simp
    next
      case (Some b)
      then have "t = b" using look Cons False by (simp add: lookupTier_def)
      then show ?thesis using firstBracket_Some_mem [OF Some] by simp
    qed
  qed
qed

lemma getLaborInsuredSalary_mem: "getLaborInsuredSalary salary \<in> set LABOR_BRACKETS"
  using lookupTier_LABOR by (rule lookupTier_mem)

lemma getHealthInsuredSalary_mem: "getHealthInsuredSalary salary \<in> set HEALTH_BRACKETS"
  using lookupTier_HEALTH by (rule lookupTier_mem)

lemma getPensionInsuredSalary_mem: "getPensionInsuredSalary salary \<in> set PENSION_BRACKETS"
  using lookupTier_PENSION by (rule lookupTier_mem)

text \<open>
  C6. On every non-empty ascending table the lookup is a capped staircase: a salary not
  above the lowest tier gets the lowest tier; a salary above it that some tier reaches gets
  the first tier, in table order, that is not below it, which is the smallest such tier;
  a salary above every tier gets the last tier, which is the table's maximum. The lookup
  always returns a tier, never \<open>undefined\<close>.
\<close>

theorem lookupTier_staircase:
  assumes "table \<noteq> []" and "sorted table"
  shows "(salary \<le> table ! 0 \<longrightarrow> lookupTier table salary = Some (table ! 0))
       \<and> (table ! 0 < salary \<and> (\<exists>t\<in>set table. salary \<le> t) \<longrightarrow>
            lookupTier table salary = List.find (\<lambda>t. salary \<le> t) table
          \<and> lookupTier table salary = Some (Min {t \<in> set table. salary \<le> t}))
       \<and> ((\<forall>t\<in>set table. t < salary) \<longrightarrow>
            lookupTier table salary = Some (last table) \<and> last table = Max (set table))
       \<and> lookupTier table salary \<noteq> None"
proof -
  obtain lowest rest where table: "table = lowest # rest"
    using assms(1) by (cases table) auto
  have c1: "salary \<le> table ! 0 \<longrightarrow> lookupTier table salary = Some (table ! 0)"
    by (simp add: lookupTier_def table)
  have c2: "table ! 0 < salary \<and> (\<exists>t\<in>set table. salary \<le> t) \<longrightarrow>
            lookupTier table salary = List.find (\<lambda>t. salary \<le> t) table
          \<and> lookupTier table salary = Some (Min {t \<in> set table. salary \<le> t})"
  proof (intro impI, elim conjE)
    assume lt: "table ! 0 < salary" and ex: "\<exists>t\<in>set table. salary \<le> t"
    from ex have "firstBracket salary table \<noteq> None"
      by (auto simp: firstBracket_None_iff not_less)
    then obtain b where b: "firstBracket salary table = Some b" by auto
    from lt have "\<not> salary \<le> lowest" by (simp add: table)
    then have look: "lookupTier table salary = Some b"
      using b by (simp add: lookupTier_def table)
    show "lookupTier table salary = List.find (\<lambda>t. salary \<le> t) table
        \<and> lookupTier table salary = Some (Min {t \<in> set table. salary \<le> t})"
      using look b firstBracket_Min [OF assms(2) b] by (simp add: firstBracket_find)
  qed
  have c3: "(\<forall>t\<in>set table. t < salary) \<longrightarrow>
            lookupTier table salary = Some (last table) \<and> last table = Max (set table)"
  proof
    assume all: "\<forall>t\<in>set table. t < salary"
    then have none: "firstBracket salary table = None" by (simp add: firstBracket_None_iff)
    from all have "\<not> salary \<le> lowest" by (auto simp: table)
    then have "lookupTier table salary = Some (table ! (length table - 1))"
      using none by (simp add: lookupTier_def table)
    moreover have "last table = table ! (length table - 1)"
      using assms(1) by (rule last_conv_nth)
    ultimately show "lookupTier table salary = Some (last table) \<and> last table = Max (set table)"
      using sorted_last_Max [OF assms] by simp
  qed
  have c4: "lookupTier table salary \<noteq> None"
    by (simp add: lookupTier_def table split: option.split)
  from c1 c2 c3 c4 show ?thesis by blast
qed

theorem lookupTier_staircase_witness:
  "LABOR_BRACKETS \<noteq> [] \<and> sorted LABOR_BRACKETS
   \<and> lookupTier LABOR_BRACKETS 9000 = Some 11100
   \<and> lookupTier LABOR_BRACKETS 30000 = Some 30300
   \<and> lookupTier LABOR_BRACKETS 66000 = Some 45800"
proof -
  have ne: "LABOR_BRACKETS \<noteq> []" by (rule LABOR_BRACKETS_nonempty)
  have so: "sorted LABOR_BRACKETS"
    using LABOR_BRACKETS_ascending by (rule strict_sorted_imp_sorted)
  have a: "lookupTier LABOR_BRACKETS 9000 = Some 11100"
    using lookupTier_staircase [OF ne so, of 9000] by (simp add: LABOR_BRACKETS_def)
  have b: "lookupTier LABOR_BRACKETS 30000 = Some 30300"
    using lookupTier_staircase [OF ne so, of 30000] by (simp add: LABOR_BRACKETS_def)
  have c: "lookupTier LABOR_BRACKETS 66000 = Some 45800"
    using lookupTier_staircase [OF ne so, of 66000] by (simp add: LABOR_BRACKETS_def)
  from ne so a b c show ?thesis by simp
qed

section \<open>Properties of the insurance calculator\<close>

text \<open>
  On every tier of its table, the rounded binary64 product of the employee's labor share,
  of the employee's health share and of the pension contribution is the rounded exact
  product: the binary64 error never crosses a half.
\<close>

lemma labor_tiers_agree:
  "list_all (\<lambda>t. Math_round (binary64 (binary64 (t * LABOR_INSURANCE_RATE) * LABOR_EMPLOYEE_SHARE))
                    = Math_round (t * 0.125 * 0.20)) LABOR_BRACKETS"
  unfolding LABOR_BRACKETS_def rate_values list.pred_inject list_all_Nil
  by (simp add: binary64_compute Math_round_def)

lemma health_tiers_agree:
  "list_all (\<lambda>t. Math_round (binary64 (binary64 (t * HEALTH_INSURANCE_RATE) * HEALTH_EMPLOYEE_SHARE))
                    = Math_round (t * 0.0517 * 0.30)) HEALTH_BRACKETS"
  unfolding HEALTH_BRACKETS_def rate_values list.pred_inject list_all_Nil
  by (simp add: binary64_compute Math_round_def)

lemma pension_tiers_agree:
  "list_all (\<lambda>t. Math_round (binary64 (t * PENSION_RATE)) = Math_round (t * 0.06)) PENSION_BRACKETS"
  unfolding PENSION_BRACKETS_def rate_values list.pred_inject list_all_Nil
  by (simp add: binary64_compute Math_round_def)

lemma list_all_mem: "list_all P xs \<Longrightarrow> x \<in> set xs \<Longrightarrow> P x"
  by (simp add: list_all_iff)

lemma calculateLaborInsurance_exact:
  "calculateLaborInsurance salary = Math_round (getLaborInsuredSalary salary * 0.125 * 0.20)"
  using list_all_mem [OF labor_tiers_agree getLaborInsuredSalary_mem, of salary]
  by (simp add: calculateLaborInsurance_def)

lemma calculateHealthInsurance_exact:
  "calculateHealthInsurance salary d =
     Math_round (getHealthInsuredSalary salary * 0.0517 * 0.30) * (1 + min d 3)"
  using list_all_mem [OF health_tiers_agree getHealthInsuredSalary_mem, of salary]
  by (simp add: calculateHealthInsurance_def)

lemma calculatePension_exact:
  "calculatePension b = Math_round (getPensionInsuredSalary b * 0.06)"
  using list_all_mem [OF pension_tiers_agree getPensionInsuredSalary_mem, of b]
  by (simp add: calculatePension_def)

text \<open>
  The employer's labor share is not of this kind. At the cap the exact product
  \<open>45800 * 0.125 * 0.70\<close> is the tie 4007.5, which rounds to 4008; the binary64 product
  lies just below the tie, and the code returns 4007 for every basis above 43900.
\<close>

lemma getLaborInsuredSalary_cap: "43900 < salary \<Longrightarrow> getLaborInsuredSalary salary = 45800"
  by (simp add: getLaborInsuredSalary_def LABOR_BRACKETS_def)

lemma labor_employer_cap_product:
  "binary64 (binary64 (45800 * LABOR_INSURANCE_RATE) * LABOR_EMPLOYER_SHARE)
     = 8812585696624639 / 2199023255552"
  unfolding rate_values by (simp add: binary64_compute)

lemma calculateLaborInsuranceEmployer_cap:
  "43900 < salary \<Longrightarrow> calculateLaborInsuranceEmployer salary = 4007"
  by (simp add: calculateLaborInsuranceEmployer_def getLaborInsuredSalary_cap
      labor_employer_cap_product Math_round_def)

lemma labor_employer_cap_exact: "Math_round (45800 * 0.125 * 0.70) = 4008"
  by (simp add: Math_round_def)

lemma tables_differ:
  "LABOR_BRACKETS ! 0 = 11100 \<and> last LABOR_BRACKETS = 45800 \<and> length LABOR_BRACKETS = 28
 \<and> HEALTH_BRACKETS ! 0 = 28590 \<and> last HEALTH_BRACKETS = 313000 \<and> length HEALTH_BRACKETS = 58
 \<and> PENSION_BRACKETS ! 0 = 1500 \<and> last PENSION_BRACKETS = 150000 \<and> length PENSION_BRACKETS = 62"
  by (simp add: LABOR_BRACKETS_def HEALTH_BRACKETS_def PENSION_BRACKETS_def)

lemma getPensionInsuredSalary_50000: "getPensionInsuredSalary 50000 = 50600"
  by (simp add: getPensionInsuredSalary_def PENSION_BRACKETS_def)
lemma getLaborInsuredSalary_50000: "getLaborInsuredSalary 50000 = 45800"
  by (simp add: getLaborInsuredSalary_def LABOR_BRACKETS_def)
lemma getHealthInsuredSalary_50000: "getHealthInsuredSalary 50000 = 50600"
  by (simp add: getHealthInsuredSalary_def HEALTH_BRACKETS_def)
lemma getPensionInsuredSalary_120000: "getPensionInsuredSalary 120000 = 120900"
  by (simp add: getPensionInsuredSalary_def PENSION_BRACKETS_def)
lemma getHealthInsuredSalary_120000: "getHealthInsuredSalary 120000 = 120500"
  by (simp add: getHealthInsuredSalary_def HEALTH_BRACKETS_def)

text \<open>
  C1. The employer pension contribution is the rounded product of the pension rate 0.06
  and the tier that the lookup finds in the pension table. The pension table is a table of
  its own: its cap (150000) is neither the labor cap (45800) nor the health cap (313000),
  and it sends the salaries 50000 and 120000 to other tiers than the labor and the health
  table do.
\<close>

theorem calculatePension_pension_table:
  "map_option (\<lambda>tier. Math_round (tier * 0.06)) (lookupTier PENSION_BRACKETS b)
     = Some (calculatePension b)
 \<and> last PENSION_BRACKETS = 150000 \<and> last LABOR_BRACKETS = 45800 \<and> last HEALTH_BRACKETS = 313000
 \<and> lookupTier PENSION_BRACKETS 50000 \<noteq> lookupTier LABOR_BRACKETS 50000
 \<and> lookupTier PENSION_BRACKETS 120000 \<noteq> lookupTier HEALTH_BRACKETS 120000"
proof -
  have "map_option (\<lambda>tier. Math_round (tier * 0.06)) (lookupTier PENSION_BRACKETS b)
     = Some (calculatePension b)"
    by (simp add: lookupTier_PENSION calculatePension_exact)
  moreover have "lookupTier PENSION_BRACKETS 50000 \<noteq> lookupTier LABOR_BRACKETS 50000"
    by (simp add: lookupTier_PENSION lookupTier_LABOR getPensionInsuredSalary_50000 getLaborInsuredSalary_50000)
  moreover have "lookupTier PENSION_BRACKETS 120000 \<noteq> lookupTier HEALTH_BRACKETS 120000"
    by (simp add: lookupTier_PENSION lookupTier_HEALTH getPensionInsuredSalary_120000 getHealthInsuredSalary_120000)
  ultimately show ?thesis using tables_differ by simp
qed

text \<open>
  The earlier revision of \<open>calculatePension\<close> reads the labor table instead, and gives
  another amount as soon as the basis passes the labor cap.
\<close>

lemma calculatePension_legacy_differs:
  "calculatePension_legacy 50000 = 2748 \<and> calculatePension 50000 = 3036"
  unfolding calculatePension_legacy_def calculatePension_exact getPensionInsuredSalary_50000
    getLaborInsuredSalary_50000 Let_def rate_values
  by (simp add: binary64_compute Math_round_def)

lemma getHealthInsuredSalary_lowest: "getHealthInsuredSalary 28590 = 28590"
  by (simp add: getHealthInsuredSalary_def HEALTH_BRACKETS_def)

text \<open>
  C5. The employee's health contribution is the single-person share, rounded, times
  one plus the dependents capped at three; the product is not rounded again. So three
  dependents and ninety-nine cost the same, as does any count of three or more. At the
  lowest tier with three dependents the amount is 1772, where rounding after the
  multiplication would have given 1774.
\<close>

theorem calculateHealthInsurance_round_then_multiply:
  "map_option (\<lambda>tier. Math_round (tier * 0.0517 * 0.30) * (1 + min d 3)) (lookupTier HEALTH_BRACKETS s)
     = Some (calculateHealthInsurance s d)
 \<and> calculateHealthInsurance s 3 = calculateHealthInsurance s 99
 \<and> (3 \<le> d \<longrightarrow> calculateHealthInsurance s d = calculateHealthInsurance s 3)
 \<and> calculateHealthInsurance 28590 3 = 1772
 \<and> Math_round (28590 * 0.0517 * 0.30 * (1 + min 3 3)) = 1774"
proof -
  have "map_option (\<lambda>tier. Math_round (tier * 0.0517 * 0.30) * (1 + min d 3)) (lookupTier HEALTH_BRACKETS s)
     = Some (calculateHealthInsurance s d)"
    by (simp add: lookupTier_HEALTH calculateHealthInsurance_exact)
  moreover have "calculateHealthInsurance s 3 = calculateHealthInsurance s 99"
    by (simp add: calculateHealthInsurance_exact)
  moreover have "3 \<le> d \<longrightarrow> calculateHealthInsurance s d = calculateHealthInsurance s 3"
    by (simp add: calculateHealthInsurance_exact min_def)
  moreover have "calculateHealthInsurance 28590 3 = 1772"
    by (simp add: calculateHealthInsurance_exact getHealthInsuredSalary_lowest Math_round_def)
  moreover have "Math_round (28590 * 0.0517 * 0.30 * (1 + min 3 3)) = 1774"
    by (simp add: Math_round_def)
  ultimately show ?thesis by simp
qed

theorem calculateHealthInsurance_round_then_multiply_witness:
  "(3::real) \<le> 99
 \<and> calculateHealthInsurance 66000 99 = calculateHealthInsurance 66000 3
 \<and> lookupTier HEALTH_BRACKETS 66000 = Some 66800
 \<and> calculateHealthInsurance 66000 99 = 4144"
proof -
  have tier: "getHealthInsuredSalary 66000 = 66800"
    by (simp add: getHealthInsuredSalary_def HEALTH_BRACKETS_def)
  have look: "lookupTier HEALTH_BRACKETS 66000 = Some 66800"
    by (simp add: lookupTier_HEALTH tier)
  show ?thesis
    using calculateHealthInsurance_round_then_multiply [of 99 66000] look
    by (simp add: Math_round_def)
qed

lemma getLaborInsuredSalary_floor: "salary \<le> 11100 \<Longrightarrow> getLaborInsuredSalary salary = 11100"
  by (simp add: getLaborInsuredSalary_def LABOR_BRACKETS_def)

lemma getHealthInsuredSalary_floor: "salary \<le> 28590 \<Longrightarrow> getHealthInsuredSalary salary = 28590"
  by (simp add: getHealthInsuredSalary_def HEALTH_BRACKETS_def)

text \<open>
  C10. A basis salary not above the lowest labor tier is insured at 11100 and costs the
  employee 278; one not above the lowest health tier is insured at 28590 and costs
  443 per chargeable person. Both amounts are constant over the whole range and positive
  (the health amount for any non-negative number of dependents), so a basis salary of
  zero is still charged the minimum contributions.
\<close>

theorem minimum_bracket_contributions:
  "(salary \<le> 11100 \<longrightarrow>
      lookupTier LABOR_BRACKETS salary = Some 11100
    \<and> calculateLaborInsurance salary = 278
    \<and> 0 < calculateLaborInsurance salary)
 \<and> (salary \<le> 28590 \<longrightarrow>
      lookupTier HEALTH_BRACKETS salary = Some 28590
    \<and> calculateHealthInsurance salary deps = 443 * (1 + min deps 3)
    \<and> (0 \<le> deps \<longrightarrow> 0 < calculateHealthInsurance salary deps))"
proof -
  have labor: "calculateLaborInsurance salary = 278" if "salary \<le> 11100"
    using that
    by (simp add: calculateLaborInsurance_exact getLaborInsuredSalary_floor Math_round_def)
  have health: "calculateHealthInsurance salary deps = 443 * (1 + min deps 3)"
    if "salary \<le> 28590"
    using that
    by (simp add: calculateHealthInsurance_exact getHealthInsuredSalary_floor Math_round_def)
  have pos: "0 < 443 * (1 + min deps 3)" if "0 \<le> deps"
    using that by (simp add: min_def)
  show ?thesis
    using labor health pos
    by (simp add: lookupTier_LABOR lookupTier_HEALTH getLaborInsuredSalary_floor getHealthInsuredSalary_floor)
qed

theorem minimum_bracket_contributions_witness:
  "(0::real) \<le> 11100 \<and> (0::real) \<le> 28590 \<and> (0::real) \<le> 2
 \<and> calculateLaborInsurance 0 = 278
 \<and> calculateHealthInsurance 0 2 = 1329"
  using minimum_bracket_contributions [of 0 2] by simp

section \<open>Properties of the overtime calculator\<close>

text \<open>The function body is its three blocks in sequence, from the total 0.\<close>

lemma calculateOvertimePay_blocks:
  "calculateOvertimePay regularSalary weekdayHours restDayHours holidayHours =
     Math_ceil (holidayBlock (binary64 (regularSalary / 240))
       (tieredBlock (binary64 (regularSalary / 240))
          (tieredBlock (binary64 (regularSalary / 240)) 0 weekdayHours) restDayHours) holidayHours)"
  unfolding calculateOvertimePay_def tieredBlock_def holidayBlock_def Let_def by (rule refl)

lemma four_thirds_value: "binary64 (4 / 3) = 6004799503160661 / 2 ^ 52"
  by (simp add: binary64_compute)

lemma five_thirds_value: "binary64 (5 / 3) = 7505999378950827 / 2 ^ 52"
  by (simp add: binary64_compute)

text \<open>
  Adding a non-negative amount to a binary64 value and rounding the sum does not go
  below the value.
\<close>

lemma binary64_add_nonneg:
  assumes "binary64 u = u" and "0 \<le> a"
  shows "u \<le> binary64 (u + a)"
proof -
  have "binary64 u \<le> binary64 (u + a)" using assms(2) by (intro binary64_mono) simp
  then show ?thesis using assms(1) by simp
qed

lemma firstTwo_pay_mono:
  assumes "0 \<le> r" and "h \<le> h'"
  shows "binary64 (binary64 (r * min h 2) * binary64 (4 / 3))
       \<le> binary64 (binary64 (r * min h' 2) * binary64 (4 / 3))"
proof -
  have "r * min h 2 \<le> r * min h' 2"
    using assms by (intro mult_left_mono) (simp_all add: min_def)
  then have "binary64 (r * min h 2) \<le> binary64 (r * min h' 2)" by (rule binary64_mono)
  moreover have "0 \<le> binary64 (4 / 3)" by (rule binary64_nonneg) simp
  ultimately have "binary64 (r * min h 2) * binary64 (4 / 3)
                 \<le> binary64 (r * min h' 2) * binary64 (4 / 3)"
    by (rule mult_right_mono)
  then show ?thesis by (rule binary64_mono)
qed

lemma firstTwo_pay_nonneg:
  assumes "0 \<le> r" and "0 < h"
  shows "0 \<le> binary64 (binary64 (r * min h 2) * binary64 (4 / 3))"
proof -
  have "0 \<le> r * min h 2" using assms by (simp add: min_def)
  then have "0 \<le> binary64 (r * min h 2)" by (rule binary64_nonneg)
  moreover have "0 \<le> binary64 (4 / 3)" by (rule binary64_nonneg) simp
  ultimately have "0 \<le> binary64 (r * min h 2) * binary64 (4 / 3)" by (rule mult_nonneg_nonneg)
  then show ?thesis by (rule binary64_nonneg)
qed

lemma remaining_pay_mono:
  assumes "0 \<le> r" and "h \<le> h'"
  shows "binary64 (binary64 (r * max 0 (binary64 (h - 2))) * binary64 (5 / 3))
       \<le> binary64 (binary64 (r * max 0 (binary64 (h' - 2))) * binary64 (5 / 3))"
proof -
  have "binary64 (h - 2) \<le> binary64 (h' - 2)" using assms(2) by (intro binary64_mono) simp
  then have "max 0 (binary64 (h - 2)) \<le> max 0 (binary64 (h' - 2))" by (simp add: max_def)
  then have "r * max 0 (binary64 (h - 2)) \<le> r * max 0 (binary64 (h' - 2))"
    using assms(1) by (rule mult_left_mono)
  then have "binary64 (r * max 0 (binary64 (h - 2))) \<le> binary64 (r * max 0 (binary64 (h' - 2)))"
    by (rule binary64_mono)
  moreover have "0 \<le> binary64 (5 / 3)" by (rule binary64_nonneg) simp
  ultimately have "binary64 (r * max 0 (binary64 (h - 2))) * binary64 (5 / 3)
                 \<le> binary64 (r * max 0 (binary64 (h' - 2))) * binary64 (5 / 3)"
    by (rule mult_right_mono)
  then show ?thesis by (rule binary64_mono)
qed

lemma remaining_pay_nonneg:
  assumes "0 \<le> r"
  shows "0 \<le> binary64 (binary64 (r * max 0 (binary64 (h - 2))) * binary64 (5 / 3))"
proof -
  have "0 \<le> r * max 0 (binary64 (h - 2))" using assms by simp
  then have "0 \<le> binary64 (r * max 0 (binary64 (h - 2)))" by (rule binary64_nonneg)
  moreover have "0 \<le> binary64 (5 / 3)" by (rule binary64_nonneg) simp
  ultimately have "0 \<le> binary64 (r * max 0 (binary64 (h - 2))) * binary64 (5 / 3)"
    by (rule mult_nonneg_nonneg)
  then show ?thesis by (rule binary64_nonneg)
qed

lemma extra_pay_mono:
  assumes "0 \<le> r" and "h \<le> h'"
  shows "binary64 (binary64 (r * binary64 (h - 8)) * binary64 (4 / 3))
       \<le> binary64 (binary64 (r * binary64 (h' - 8)) * binary64 (4 / 3))"
proof -
  have "binary64 (h - 8) \<le> binary64 (h' - 8)" using assms(2) by (intro binary64_mono) simp
  then have "r * binary64 (h - 8) \<le> r * binary64 (h' - 8)"
    using assms(1) by (rule mult_left_mono)
  then have "binary64 (r * binary64 (h - 8)) \<le> binary64 (r * binary64 (h' - 8))"
    by (rule binary64_mono)
  moreover have "0 \<le> binary64 (4 / 3)" by (rule binary64_nonneg) simp
  ultimately have "binary64 (r * binary64 (h - 8)) * binary64 (4 / 3)
                 \<le> binary64 (r * binary64 (h' - 8)) * binary64 (4 / 3)"
    by (rule mult_right_mono)
  then show ?thesis by (rule binary64_mono)
qed

lemma extra_pay_nonneg:
  assumes "0 \<le> r" and "8 < h"
  shows "0 \<le> binary64 (binary64 (r * binary64 (h - 8)) * binary64 (4 / 3))"
proof -
  have "0 \<le> binary64 (h - 8)" using assms(2) by (intro binary64_nonneg) simp
  then have "0 \<le> r * binary64 (h - 8)" using assms(1) by simp
  then have "0 \<le> binary64 (r * binary64 (h - 8))" by (rule binary64_nonneg)
  moreover have "0 \<le> binary64 (4 / 3)" by (rule binary64_nonneg) simp
  ultimately have "0 \<le> binary64 (r * binary64 (h - 8)) * binary64 (4 / 3)"
    by (rule mult_nonneg_nonneg)
  then show ?thesis by (rule binary64_nonneg)
qed

text \<open>
  Each block returns a binary64 value when it is given one, and does not lower its result
  when the running total or the hours are raised.
\<close>

lemma tieredBlock_binary64: "binary64 t = t \<Longrightarrow> binary64 (tieredBlock r t h) = tieredBlock r t h"
  by (simp add: tieredBlock_def Let_def binary64_idem)

lemma holidayBlock_binary64: "binary64 t = t \<Longrightarrow> binary64 (holidayBlock r t h) = holidayBlock r t h"
  by (simp add: holidayBlock_def Let_def binary64_idem)

lemma tieredBlock_mono_total:
  assumes "t \<le> t'"
  shows "tieredBlock r t h \<le> tieredBlock r t' h"
proof (cases "0 < h")
  case False
  then show ?thesis using assms by (simp add: tieredBlock_def)
next
  case True
  define A where "A = binary64 (binary64 (r * min h 2) * binary64 (4 / 3))"
  define B where "B = binary64 (binary64 (r * max 0 (binary64 (h - 2))) * binary64 (5 / 3))"
  have "binary64 (t + A) \<le> binary64 (t' + A)" using assms by (intro binary64_mono) simp
  then have "binary64 (binary64 (t + A) + B) \<le> binary64 (binary64 (t' + A) + B)"
    by (intro binary64_mono) simp
  then show ?thesis using True by (simp add: tieredBlock_def Let_def A_def B_def)
qed

lemma holidayBlock_mono_total:
  assumes "t \<le> t'"
  shows "holidayBlock r t h \<le> holidayBlock r t' h"
proof (cases "0 < h")
  case False
  then show ?thesis using assms by (simp add: holidayBlock_def)
next
  case True
  define C where "C = binary64 (binary64 (r * binary64 (h - 8)) * binary64 (4 / 3))"
  have u: "binary64 (t + binary64 (r * 8)) \<le> binary64 (t' + binary64 (r * 8))"
    using assms by (intro binary64_mono) simp
  then have "binary64 (binary64 (t + binary64 (r * 8)) + C)
           \<le> binary64 (binary64 (t' + binary64 (r * 8)) + C)"
    by (intro binary64_mono) simp
  then show ?thesis using True u by (simp add: holidayBlock_def Let_def C_def)
qed

lemma tieredBlock_mono_hours:
  assumes "0 \<le> r" and "binary64 t = t" and "h \<le> h'"
  shows "tieredBlock r t h \<le> tieredBlock r t h'"
proof -
  define A where "A = (\<lambda>x. binary64 (binary64 (r * min x 2) * binary64 (4 / 3)))"
  define B where "B = (\<lambda>x. binary64 (binary64 (r * max 0 (binary64 (x - 2))) * binary64 (5 / 3)))"
  have block: "tieredBlock r t x = (if 0 < x then binary64 (binary64 (t + A x) + B x) else t)" for x
    by (simp add: tieredBlock_def Let_def A_def B_def)
  have A_mono: "A h \<le> A h'" unfolding A_def using assms(1,3) by (rule firstTwo_pay_mono)
  have B_mono: "B h \<le> B h'" unfolding B_def using assms(1,3) by (rule remaining_pay_mono)
  have B_nonneg: "0 \<le> B x" for x unfolding B_def using assms(1) by (rule remaining_pay_nonneg)
  show ?thesis
  proof (cases "0 < h'")
    case False
    then have "\<not> 0 < h" using assms(3) by simp
    then show ?thesis using False by (simp add: block)
  next
    case pos': True
    show ?thesis
    proof (cases "0 < h")
      case False
      have "0 \<le> A h'" unfolding A_def using assms(1) pos' by (rule firstTwo_pay_nonneg)
      with assms(2) have "t \<le> binary64 (t + A h')" by (rule binary64_add_nonneg)
      also have "\<dots> \<le> binary64 (binary64 (t + A h') + B h')"
        using binary64_idem B_nonneg by (rule binary64_add_nonneg)
      finally show ?thesis using False pos' by (simp add: block)
    next
      case True
      have "binary64 (t + A h) \<le> binary64 (t + A h')"
        using A_mono by (intro binary64_mono) simp
      then have "binary64 (t + A h) + B h \<le> binary64 (t + A h') + B h'"
        using B_mono by (rule add_mono)
      then have "binary64 (binary64 (t + A h) + B h) \<le> binary64 (binary64 (t + A h') + B h')"
        by (rule binary64_mono)
      then show ?thesis using True pos' by (simp add: block)
    qed
  qed
qed

lemma holidayBlock_mono_hours:
  assumes "0 \<le> r" and "binary64 t = t" and "h \<le> h'"
  shows "holidayBlock r t h \<le> holidayBlock r t h'"
proof -
  define u where "u = binary64 (t + binary64 (r * 8))"
  define C where "C = (\<lambda>x. binary64 (binary64 (r * binary64 (x - 8)) * binary64 (4 / 3)))"
  have block: "holidayBlock r t x =
      (if 0 < x then (if 8 < x then binary64 (u + C x) else u) else t)" for x
    by (simp add: holidayBlock_def Let_def u_def C_def)
  have u_rep: "binary64 u = u" unfolding u_def by (rule binary64_idem)
  have "0 \<le> r * 8" using assms(1) by simp
  then have "0 \<le> binary64 (r * 8)" by (rule binary64_nonneg)
  with assms(2) have t_u: "t \<le> u" unfolding u_def by (rule binary64_add_nonneg)
  have u_up: "u \<le> binary64 (u + C x)" if "8 < x" for x
  proof -
    have "0 \<le> C x" unfolding C_def using assms(1) that by (rule extra_pay_nonneg)
    with u_rep show ?thesis by (rule binary64_add_nonneg)
  qed
  have C_mono: "C h \<le> C h'" unfolding C_def using assms(1,3) by (rule extra_pay_mono)
  show ?thesis
  proof (cases "0 < h'")
    case False
    then have "\<not> 0 < h" using assms(3) by simp
    then show ?thesis using False by (simp add: block)
  next
    case pos': True
    show ?thesis
    proof (cases "8 < h'")
      case False
      then have "\<not> 8 < h" using assms(3) by simp
      then show ?thesis using False pos' t_u by (simp add: block)
    next
      case big': True
      have t_top: "t \<le> binary64 (u + C h')" using t_u u_up [OF big'] by simp
      show ?thesis
      proof (cases "8 < h")
        case False
        then show ?thesis using pos' big' t_top u_up [OF big'] by (simp add: block)
      next
        case True
        have "binary64 (u + C h) \<le> binary64 (u + C h')"
          using C_mono by (intro binary64_mono) simp
        then show ?thesis using True pos' big' by (simp add: block)
      qed
    qed
  qed
qed

lemma Math_ceil_mono: "x \<le> y \<Longrightarrow> Math_ceil x \<le> Math_ceil y"
  by (simp add: Math_ceil_def ceiling_mono)

text \<open>Overtime pay of the records used below.\<close>

lemma overtime_scenario: "calculateOvertimePay 66000 3 0 0 = 1192"
  unfolding calculateOvertimePay_blocks tieredBlock_def holidayBlock_def Let_def
    four_thirds_value five_thirds_value
  by (simp add: binary64_compute Math_ceil_def)

lemma overtime_36000: "calculateOvertimePay 36000 3 0 0 = 650"
  unfolding calculateOvertimePay_blocks tieredBlock_def holidayBlock_def Let_def
    four_thirds_value five_thirds_value
  by (simp add: binary64_compute Math_ceil_def)

lemma overtime_30000_13: "calculateOvertimePay 30000 13 0 0 = 2626"
  unfolding calculateOvertimePay_blocks tieredBlock_def holidayBlock_def Let_def
    four_thirds_value five_thirds_value
  by (simp add: binary64_compute Math_ceil_def)

lemma overtime_66000_22: "calculateOvertimePay 66000 22 0 0 = 9901"
  unfolding calculateOvertimePay_blocks tieredBlock_def holidayBlock_def Let_def
    four_thirds_value five_thirds_value
  by (simp add: binary64_compute Math_ceil_def)

lemma overtime_spec_values:
  "calculateOvertimePay_spec 30000 13 0 0 = 2625"
  "calculateOvertimePay_spec 66000 22 0 0 = 9900"
  "calculateOvertimePay_spec 66000 3 0 0 = 1192"
  by (simp_all add: calculateOvertimePay_spec_def)

text \<open>
  C4. The overtime pay is not always the ceiling of the exact sum. At a regular salary
  of 30000 with 13 weekday hours the exact sum is 2625 and so is its ceiling; the code
  adds the binary64 products 333.33... and 2291.66... to a total just above 2625 and
  returns 2626. At 66000 with 22 weekday hours it returns 9901 where the exact sum is
  9900. At the worked scenario (66000, 3 weekday hours) both give 1192.
\<close>

theorem calculateOvertimePay_rounding_divergence:
  "calculateOvertimePay 30000 13 0 0 = 2626 \<and> calculateOvertimePay_spec 30000 13 0 0 = 2625
 \<and> calculateOvertimePay 66000 22 0 0 = 9901 \<and> calculateOvertimePay_spec 66000 22 0 0 = 9900
 \<and> calculateOvertimePay 66000 3 0 0 = calculateOvertimePay_spec 66000 3 0 0"
  by (simp add: overtime_30000_13 overtime_66000_22 overtime_scenario overtime_spec_values)

text \<open>
  C7. For a non-negative regular salary, raising the weekday hours, the rest-day hours
  or the holiday hours, the other inputs fixed, never lowers the overtime pay.
\<close>

theorem calculateOvertimePay_monotone:
  assumes "0 \<le> regularSalary" and "h \<le> h'"
  shows "calculateOvertimePay regularSalary h b c \<le> calculateOvertimePay regularSalary h' b c
       \<and> calculateOvertimePay regularSalary a h c \<le> calculateOvertimePay regularSalary a h' c
       \<and> calculateOvertimePay regularSalary a b h \<le> calculateOvertimePay regularSalary a b h'"
proof -
  define r where "r = binary64 (regularSalary / 240)"
  have "0 \<le> regularSalary / 240" using assms(1) by simp
  then have rate: "0 \<le> r" unfolding r_def by (rule binary64_nonneg)
  have zero: "binary64 0 = 0" by simp
  have "tieredBlock r 0 h \<le> tieredBlock r 0 h'"
    using rate zero assms(2) by (rule tieredBlock_mono_hours)
  then have "tieredBlock r (tieredBlock r 0 h) b \<le> tieredBlock r (tieredBlock r 0 h') b"
    by (rule tieredBlock_mono_total)
  then have "holidayBlock r (tieredBlock r (tieredBlock r 0 h) b) c
           \<le> holidayBlock r (tieredBlock r (tieredBlock r 0 h') b) c"
    by (rule holidayBlock_mono_total)
  then have weekday: "calculateOvertimePay regularSalary h b c \<le> calculateOvertimePay regularSalary h' b c"
    unfolding calculateOvertimePay_blocks r_def by (rule Math_ceil_mono)
  have total1: "binary64 (tieredBlock r 0 a) = tieredBlock r 0 a"
    using zero by (rule tieredBlock_binary64)
  have "tieredBlock r (tieredBlock r 0 a) h \<le> tieredBlock r (tieredBlock r 0 a) h'"
    using rate total1 assms(2) by (rule tieredBlock_mono_hours)
  then have "holidayBlock r (tieredBlock r (tieredBlock r 0 a) h) c
           \<le> holidayBlock r (tieredBlock r (tieredBlock r 0 a) h') c"
    by (rule holidayBlock_mono_total)
  then have restday: "calculateOvertimePay regularSalary a h c \<le> calculateOvertimePay regularSalary a h' c"
    unfolding calculateOvertimePay_blocks r_def by (rule Math_ceil_mono)
  have total2: "binary64 (tieredBlock r (tieredBlock r 0 a) b) = tieredBlock r (tieredBlock r 0 a) b"
    using total1 by (rule tieredBlock_binary64)
  have "holidayBlock r (tieredBlock r (tieredBlock r 0 a) b) h
      \<le> holidayBlock r (tieredBlock r (tieredBlock r 0 a) b) h'"
    using rate total2 assms(2) by (rule holidayBlock_mono_hours)
  then have hol: "calculateOvertimePay regularSalary a b h \<le> calculateOvertimePay regularSalary a b h'"
    unfolding calculateOvertimePay_blocks r_def by (rule Math_ceil_mono)
  from weekday restday hol show ?thesis by simp
qed

theorem calculateOvertimePay_monotone_witness:
  "(0::real) \<le> 66000 \<and> (8::real) \<le> 10
 \<and> calculateOvertimePay 66000 0 0 8 \<le> calculateOvertimePay 66000 0 0 10
 \<and> calculateOvertimePay 66000 0 0 8 = 2200 \<and> calculateOvertimePay 66000 0 0 10 = 2934"
proof -
  have "calculateOvertimePay 66000 0 0 8 = 2200" "calculateOvertimePay 66000 0 0 10 = 2934"
    unfolding calculateOvertimePay_blocks tieredBlock_def holidayBlock_def Let_def four_thirds_value
    by (simp_all add: binary64_compute Math_ceil_def)
  then show ?thesis
    using calculateOvertimePay_monotone [of 66000 8 10 0 0 0] by simp
qed

section \<open>Properties of the payroll aggregator\<close>

text \<open>
  C3. The total employer cost of every settled record is its net pay plus the employer's
  labor, health and pension contributions; put with the gross salary, the employee's
  total deductions are taken off.
\<close>

theorem totalCompanyCost_identity:
  "totalCompanyCost (computePayroll emp) =
     netPay (computePayroll emp) + laborInsuranceCo (computePayroll emp)
       + healthInsuranceCo (computePayroll emp) + pensionCompany (computePayroll emp)
 \<and> totalCompanyCost (computePayroll emp) =
     grossSalary (computePayroll emp) - totalDeductions (computePayroll emp)
       + laborInsuranceCo (computePayroll emp)
       + healthInsuranceCo (computePayroll emp) + pensionCompany (computePayroll emp)"
  by (simp add: computePayroll_def Let_def)

text \<open>
  The worked scenario: base salary 60000, allowances 3000, 1000 and 2000, three weekday
  overtime hours, one custom allowance of 5000, no dependents. The insurance basis is the
  fixed monthly total, which includes the custom allowance: 71000, not 66000.
\<close>

lemma labor_71000: "getLaborInsuredSalary 71000 = 45800"
  by (simp add: getLaborInsuredSalary_def LABOR_BRACKETS_def)
lemma health_71000: "getHealthInsuredSalary 71000 = 72800"
  by (simp add: getHealthInsuredSalary_def HEALTH_BRACKETS_def)

lemma initialEmployee_payroll:
  "grossSalary (computePayroll initialEmployee) = 72192
 \<and> insuredSalary (computePayroll initialEmployee) = 45800
 \<and> insuredSalaryHealth (computePayroll initialEmployee) = 72800
 \<and> laborInsuranceEmp (computePayroll initialEmployee) = 1145
 \<and> healthInsuranceEmp (computePayroll initialEmployee) = 1129
 \<and> totalDeductions (computePayroll initialEmployee) = 2274
 \<and> netPay (computePayroll initialEmployee) = 69918"
  by (simp add: computePayroll_def initialEmployee_def Let_def overtime_scenario
      calculateLaborInsurance_exact calculateHealthInsurance_exact labor_71000 health_71000
      Math_round_def)

text \<open>The employer's labor share of the scenario is the binary64 value at the cap.\<close>

lemma initialEmployee_laborInsuranceCo:
  "laborInsuranceCo (computePayroll initialEmployee) = 4007"
  by (simp add: computePayroll_def initialEmployee_def Let_def calculateLaborInsuranceEmployer_cap)

lemma health_66000_is_1036: "calculateHealthInsurance 66000 0 = 1036"
  by (simp add: calculateHealthInsurance_exact getHealthInsuredSalary_def HEALTH_BRACKETS_def Math_round_def)

text \<open>
  C2, as the code computes it. The scenario's record settles at gross salary 72192,
  employee labor insurance 1145, employee health insurance 1129 (the health tier of the
  basis 71000 is 72800), total deductions 2274 and net pay 69918.
\<close>

theorem scenario_payroll_amended:
  "grossSalary (computePayroll initialEmployee) = 72192
 \<and> laborInsuranceEmp (computePayroll initialEmployee) = 1145
 \<and> healthInsuranceEmp (computePayroll initialEmployee) = 1129
 \<and> totalDeductions (computePayroll initialEmployee) = 2274
 \<and> netPay (computePayroll initialEmployee) = 69918"
  using initialEmployee_payroll by simp

text \<open>
  C2, as stated, fails: the record does not settle at health insurance 1037, total
  deductions 2182 and net pay 70010.
\<close>

theorem scenario_payroll_counterexample:
  "\<not> (grossSalary (computePayroll initialEmployee) = 72192
     \<and> laborInsuranceEmp (computePayroll initialEmployee) = 1145
     \<and> healthInsuranceEmp (computePayroll initialEmployee) = 1037
     \<and> totalDeductions (computePayroll initialEmployee) = 2182
     \<and> netPay (computePayroll initialEmployee) = 70010)"
  using initialEmployee_payroll by simp

section \<open>Properties of the batch\<close>

text \<open>
  One \<open>map.set\<close> per record: appending a record stores its settlement under its id.
\<close>

lemma computePayrollBatch_snoc:
  "computePayrollBatch (employees @ [emp]) =
     (computePayrollBatch employees)(emp_id emp \<mapsto> computePayroll emp)"
  by (simp add: computePayrollBatch_def)

lemma computePayrollBatch_Nil: "computePayrollBatch [] = Map.empty"
  by (simp add: computePayrollBatch_def)

lemma dom_computePayrollBatch:
  "dom (computePayrollBatch employees) = emp_id ` set employees"
proof (induction employees rule: rev_induct)
  case Nil
  show ?case by (simp add: computePayrollBatch_Nil)
next
  case (snoc emp employees)
  have "dom (computePayrollBatch (employees @ [emp])) =
        insert (emp_id emp) (dom (computePayrollBatch employees))"
    unfolding computePayrollBatch_snoc by simp
  then show ?case using snoc by simp
qed

lemma computePayrollBatch_last_wins:
  "\<forall>r\<in>set post. emp_id r \<noteq> emp_id emp \<Longrightarrow>
   computePayrollBatch (pre @ emp # post) (emp_id emp) = Some (computePayroll emp)"
proof (induction post rule: rev_induct)
  case Nil
  show ?case using computePayrollBatch_snoc [of pre emp] by simp
next
  case (snoc r post)
  have "computePayrollBatch (pre @ emp # post @ [r]) =
        (computePayrollBatch (pre @ emp # post))(emp_id r \<mapsto> computePayroll r)"
    using computePayrollBatch_snoc [of "pre @ emp # post" r] by simp
  then show ?case using snoc by auto
qed

lemma computePayrollBatch_distinct_lookup:
  "distinct (map emp_id employees) \<Longrightarrow> emp \<in> set employees \<Longrightarrow>
   computePayrollBatch employees (emp_id emp) = Some (computePayroll emp)"
proof (induction employees rule: rev_induct)
  case Nil
  then show ?case by simp
next
  case (snoc r employees)
  show ?case
  proof (cases "emp = r")
    case True
    then show ?thesis by (simp add: computePayrollBatch_snoc)
  next
    case False
    with snoc.prems have mem: "emp \<in> set employees" by simp
    then have "emp_id emp \<in> emp_id ` set employees" by (rule imageI)
    moreover from snoc.prems have "emp_id r \<notin> emp_id ` set employees" by simp
    ultimately have "emp_id emp \<noteq> emp_id r" by auto
    moreover from snoc.prems have "distinct (map emp_id employees)" by simp
    ultimately show ?thesis using snoc.IH mem by (simp add: computePayrollBatch_snoc)
  qed
qed

lemma computePayrollBatch_permutation:
  assumes "distinct (map emp_id employees)" and "mset employees' = mset employees"
  shows "computePayrollBatch employees' = computePayrollBatch employees"
proof
  fix k
  have sets: "set employees' = set employees" using assms(2) by (rule mset_eq_setD)
  have "mset (map emp_id employees') = mset (map emp_id employees)"
    using assms(2) by simp
  then have "distinct (map emp_id employees') = distinct (map emp_id employees)"
    by (rule mset_eq_imp_distinct_iff)
  then have dist': "distinct (map emp_id employees')"
    using assms(1) by blast
  show "computePayrollBatch employees' k = computePayrollBatch employees k"
  proof (cases "k \<in> emp_id ` set employees")
    case True
    then obtain emp where emp: "emp \<in> set employees" "k = emp_id emp" by auto
    then show ?thesis
      using computePayrollBatch_distinct_lookup [OF assms(1), of emp]
            computePayrollBatch_distinct_lookup [OF dist', of emp] sets by simp
  next
    case False
    then have "k \<notin> dom (computePayrollBatch employees)" "k \<notin> dom (computePayrollBatch employees')"
      using sets by (simp_all add: dom_computePayrollBatch)
    then show ?thesis by (simp add: domIff)
  qed
qed

lemma employee_ids:
  "emp_id initialEmployee = ''1'' \<and> emp_id secondEmployee = ''2'' \<and> emp_id duplicateEmployee = ''1''"
  by (simp add: initialEmployee_def secondEmployee_def duplicateEmployee_def)

lemma duplicate_gross:
  "grossSalary (computePayroll duplicateEmployee) = 41650
 \<and> grossSalary (computePayroll initialEmployee) = 72192"
  by (simp add: computePayroll_def duplicateEmployee_def secondEmployee_def initialEmployee_def Let_def
       overtime_36000 overtime_scenario)

text \<open>
  C8, as the code has it. For a list of records with pairwise distinct ids, the batch
  has exactly the records' ids as keys, has as many entries as the list has records,
  holds under each record's id that record's settlement, and is the same map for every
  reordering of the list.
\<close>

theorem computePayrollBatch_distinct_ids:
  assumes "distinct (map emp_id employees)"
  shows "dom (computePayrollBatch employees) = emp_id ` set employees
       \<and> card (dom (computePayrollBatch employees)) = length employees
       \<and> (\<forall>emp\<in>set employees. computePayrollBatch employees (emp_id emp) = Some (computePayroll emp))
       \<and> (mset employees' = mset employees \<longrightarrow>
            computePayrollBatch employees' = computePayrollBatch employees)"
proof -
  have keys: "dom (computePayrollBatch employees) = emp_id ` set employees"
    by (rule dom_computePayrollBatch)
  have "card (emp_id ` set employees) = length employees"
    using distinct_card [OF assms] by simp
  then have count: "card (dom (computePayrollBatch employees)) = length employees"
    by (simp add: keys)
  have entries: "\<forall>emp\<in>set employees.
      computePayrollBatch employees (emp_id emp) = Some (computePayroll emp)"
    using computePayrollBatch_distinct_lookup [OF assms] by simp
  have order: "mset employees' = mset employees \<longrightarrow>
      computePayrollBatch employees' = computePayrollBatch employees"
    by (rule impI) (rule computePayrollBatch_permutation [OF assms])
  from keys count entries order show ?thesis by (intro conjI)
qed

theorem computePayrollBatch_distinct_ids_witness:
  "distinct (map emp_id [initialEmployee, secondEmployee])
 \<and> mset [secondEmployee, initialEmployee] = mset [initialEmployee, secondEmployee]
 \<and> card (dom (computePayrollBatch [initialEmployee, secondEmployee])) = 2
 \<and> computePayrollBatch [initialEmployee, secondEmployee] ''2'' = Some (computePayroll secondEmployee)
 \<and> computePayrollBatch [secondEmployee, initialEmployee] = computePayrollBatch [initialEmployee, secondEmployee]"
  using computePayrollBatch_distinct_ids [of "[initialEmployee, secondEmployee]" "[secondEmployee, initialEmployee]"]
  by (simp add: employee_ids)

text \<open>
  C8, as stated for every list, fails: two records under one id give a batch with one
  entry, and the entry is that of the later record, so the batch depends on the order.
\<close>

theorem computePayrollBatch_duplicate_id_counterexample:
  "card (dom (computePayrollBatch [initialEmployee, duplicateEmployee]))
     \<noteq> length [initialEmployee, duplicateEmployee]
 \<and> computePayrollBatch [initialEmployee, duplicateEmployee]
     \<noteq> computePayrollBatch [duplicateEmployee, initialEmployee]"
proof -
  have "card (dom (computePayrollBatch [initialEmployee, duplicateEmployee])) = 1"
    by (simp add: dom_computePayrollBatch employee_ids)
  moreover have "computePayrollBatch [initialEmployee, duplicateEmployee] ''1''
                  = Some (computePayroll duplicateEmployee)"
    by (simp add: computePayrollBatch_def employee_ids)
  moreover have "computePayrollBatch [duplicateEmployee, initialEmployee] ''1''
                  = Some (computePayroll initialEmployee)"
    by (simp add: computePayrollBatch_def employee_ids)
  moreover have "computePayroll duplicateEmployee \<noteq> computePayroll initialEmployee"
    using duplicate_gross by auto
  ultimately show ?thesis by auto
qed

text \<open>
  C9, as the code has it. The settlement is a function of the employee's record alone
  (the tables and rates are constants, and every rounding is a function of its argument),
  and the batch stores it unchanged under the employee's id whatever the other records
  are and wherever the record stands in the list, provided no later record carries the
  same id, as is the case when the ids are pairwise distinct: two batches that both
  contain the record hold the same settlement for it.
\<close>

theorem computePayroll_noninterference:
  assumes "\<forall>r\<in>set post. emp_id r \<noteq> emp_id emp" and "\<forall>r\<in>set post'. emp_id r \<noteq> emp_id emp"
  shows "computePayrollBatch (pre @ emp # post) (emp_id emp) = Some (computePayroll emp)
       \<and> computePayrollBatch (pre' @ emp # post') (emp_id emp)
           = computePayrollBatch (pre @ emp # post) (emp_id emp)"
  using computePayrollBatch_last_wins [OF assms(1)] computePayrollBatch_last_wins [OF assms(2)]
  by simp

theorem computePayroll_noninterference_witness:
  "emp_id secondEmployee \<noteq> emp_id initialEmployee
 \<and> computePayrollBatch [initialEmployee, secondEmployee] ''1'' = Some (computePayroll initialEmployee)
 \<and> computePayrollBatch [secondEmployee, initialEmployee] ''1''
     = computePayrollBatch [initialEmployee, secondEmployee] ''1''"
  using computePayroll_noninterference [of "[secondEmployee]" initialEmployee "[]" "[]" "[secondEmployee]"]
  by (simp add: employee_ids)

text \<open>
  C9, as stated for any other records, fails: beside the second employee's record the
  batch holds the first employee's settlement under the first employee's id; when the
  other record is changed to carry that id, the batch holds another settlement there.
\<close>

theorem computePayroll_noninterference_counterexample:
  "computePayrollBatch [initialEmployee, secondEmployee] (emp_id initialEmployee)
     = Some (computePayroll initialEmployee)
 \<and> computePayrollBatch [initialEmployee, duplicateEmployee] (emp_id initialEmployee)
     \<noteq> Some (computePayroll initialEmployee)"
proof -
  have "computePayrollBatch [initialEmployee, secondEmployee] ''1''
          = Some (computePayroll initialEmployee)"
    by (simp add: computePayrollBatch_def employee_ids)
  moreover have "computePayrollBatch [initialEmployee, duplicateEmployee] ''1''
          = Some (computePayroll duplicateEmployee)"
    by (simp add: computePayrollBatch_def employee_ids)
  moreover have "computePayroll duplicateEmployee \<noteq> computePayroll initialEmployee"
    using duplicate_gross by auto
  ultimately show ?thesis by (simp add: employee_ids)
qed

end
